theory Spec2Isabelle
  imports Complex_Main "HOL-Library.Sublist"
begin

section \<open>JavaScript strings\<close>

text \<open>
  A JavaScript string is modelled as a \<^typ>\<open>string\<close>, one \<^typ>\<open>char\<close> per
  code unit; code units above \<open>0xFF\<close> are outside the model. \<open>isWhiteSpace\<close>
  lists the white space and line terminator code units that \<open>String.prototype.trim\<close>
  strips, as far as they lie in that range.
\<close>

definition isWhiteSpace :: "char \<Rightarrow> bool" where
  "isWhiteSpace c =
     (c = CHR 0x09 \<or> c = CHR 0x0A \<or> c = CHR 0x0B \<or> c = CHR 0x0C \<or> c = CHR 0x0D \<or>
      c = CHR 0x20 \<or> c = CHR 0xA0)"

definition trim :: "string \<Rightarrow> string" where
  "trim s = rev (dropWhile isWhiteSpace (rev (dropWhile isWhiteSpace s)))"

text \<open>\<open>s.split('\n')\<close>: the pieces between the line feeds; never the empty list.\<close>

fun split_nl :: "string \<Rightarrow> string list" where
  "split_nl [] = [[]]"
| "split_nl (c # cs) =
     (if c = CHR 0x0A then [] # split_nl cs
      else (case split_nl cs of [] \<Rightarrow> [[c]] | l # ls \<Rightarrow> (c # l) # ls))"

text \<open>\<open>a.join('\n')\<close>.\<close>

fun join_nl :: "string list \<Rightarrow> string" where
  "join_nl [] = []"
| "join_nl [l] = l"
| "join_nl (l # m # ls) = l @ CHR 0x0A # join_nl (m # ls)"

text \<open>\<open>line.startsWith(p)\<close>.\<close>

definition startsWith :: "string \<Rightarrow> string \<Rightarrow> bool" where
  "startsWith line p = prefix p line"

text \<open>
  \<open>s.replace(pat, rep)\<close> with a string pattern: the first occurrence of \<open>pat\<close> is
  replaced. (The source only passes the replacement \<open>''\<close>, which holds no \<open>$\<close>
  pattern.)
\<close>

fun replace :: "string \<Rightarrow> string \<Rightarrow> string \<Rightarrow> string" where
  "replace [] pat rep = (if pat = [] then rep else [])"
| "replace (c # cs) pat rep =
     (if prefix pat (c # cs) then rep @ drop (length pat) (c # cs)
      else c # replace cs pat rep)"

section \<open>The bulk-insert format: parseSpec\<close>

record parsed =
  name_p :: string
  category_p :: string
  description_p :: string
  instructions_p :: string

text \<open>
  The \<open>for (const line of lines)\<close> loop of \<open>parseSpec\<close>, with the loop's five
  variables as arguments; at the end of the list it builds the returned object.
\<close>

fun parseLines ::
  "string list \<Rightarrow> string \<Rightarrow> string \<Rightarrow> string \<Rightarrow> string list \<Rightarrow> bool \<Rightarrow> parsed" where
  "parseLines [] name category description instructionLines inInstructions =
     \<lparr>name_p = name, category_p = category, description_p = description,
      instructions_p = trim (join_nl instructionLines)\<rparr>"
| "parseLines (line # lines) name category description instructionLines inInstructions =
     (if startsWith line ''NAME:'' then
        parseLines lines (trim (replace line ''NAME:'' '''')) category description
          instructionLines inInstructions
      else if startsWith line ''CATEGORY:'' then
        parseLines lines name (trim (replace line ''CATEGORY:'' '''')) description
          instructionLines inInstructions
      else if startsWith line ''DESCRIPTION:'' then
        parseLines lines name category (trim (replace line ''DESCRIPTION:'' ''''))
          instructionLines inInstructions
      else if trim line = ''---'' then
        parseLines lines name category description instructionLines True
      else if inInstructions then
        parseLines lines name category description (instructionLines @ [line]) inInstructions
      else
        parseLines lines name category description instructionLines inInstructions)"

definition parseSpec :: "string \<Rightarrow> parsed" where
  "parseSpec spec = parseLines (split_nl (trim spec)) '''' ''crm'' '''' [] False"

section \<open>JavaScript numbers\<close>

text \<open>
  A \<open>number\<close> is a binary64 floating-point number: a real or one of the three
  non-finite values (the sign of zero is not modelled). A priority read from the
  store is a finite number.
\<close>

datatype jsnum = Num real | PosInfinity | NegInfinity | NaN

text \<open>
  Every arithmetic operation yields the exact result rounded to the nearest number
  with a significand of 53 bits, a tie going to the even significand. \<open>rne\<close>
  rounds a real to the nearest integer, ties to even; \<open>round_at e x\<close> rounds \<open>x\<close>
  to a multiple of \<open>2 ^ (e - 52)\<close>; \<open>round53\<close> takes for \<open>e\<close> the binary exponent
  of \<open>x\<close>. The exponent range of binary64 is not modelled: on the finite numbers
  the source can receive none of its operations leaves it (\<open>x + 1\<close>, \<open>x - 1\<close> and
  \<open>x - 1.5\<close> for a finite \<open>x\<close>; \<open>a / b\<close> and its product with 100 for two array
  lengths).
\<close>

definition rne :: "real \<Rightarrow> int" where
  "rne y =
     (let n = \<lfloor>y\<rfloor>; d = y - of_int n
      in if d < 1 / 2 then n else if 1 / 2 < d then n + 1 else if even n then n else n + 1)"

definition round_at :: "int \<Rightarrow> real \<Rightarrow> real" where
  "round_at e x = 2 powr of_int (e - 52) * of_int (rne (x / 2 powr of_int (e - 52)))"

definition round53 :: "real \<Rightarrow> real" where
  "round53 x = (if x = 0 then 0 else round_at \<lfloor>log 2 \<bar>x\<bar>\<rfloor> x)"

text \<open>\<open>Math.min(...xs)\<close> and \<open>Math.max(...xs)\<close> over finite numbers.\<close>

fun Math_min :: "real list \<Rightarrow> jsnum" where
  "Math_min [] = PosInfinity"
| "Math_min (x # xs) = (case Math_min xs of Num m \<Rightarrow> Num (min x m) | _ \<Rightarrow> Num x)"

fun Math_max :: "real list \<Rightarrow> jsnum" where
  "Math_max [] = NegInfinity"
| "Math_max (x # xs) = (case Math_max xs of Num m \<Rightarrow> Num (max x m) | _ \<Rightarrow> Num x)"

text \<open>\<open>x + c\<close> and \<open>x - c\<close> for a finite constant \<open>c\<close>.\<close>

fun js_plus :: "jsnum \<Rightarrow> real \<Rightarrow> jsnum" where
  "js_plus (Num x) c = Num (round53 (x + c))"
| "js_plus PosInfinity c = PosInfinity"
| "js_plus NegInfinity c = NegInfinity"
| "js_plus NaN c = NaN"

fun js_minus :: "jsnum \<Rightarrow> real \<Rightarrow> jsnum" where
  "js_minus (Num x) c = Num (round53 (x - c))"
| "js_minus PosInfinity c = PosInfinity"
| "js_minus NegInfinity c = NegInfinity"
| "js_minus NaN c = NaN"

text \<open>\<open>a / b\<close> for two array lengths: \<open>0 / 0\<close> is \<open>NaN\<close>.\<close>

definition js_div :: "nat \<Rightarrow> nat \<Rightarrow> jsnum" where
  "js_div a b =
     (if b = 0 then (if a = 0 then NaN else PosInfinity) else Num (round53 (real a / real b)))"

text \<open>\<open>x * c\<close> for a finite constant \<open>c\<close>.\<close>

fun js_times :: "jsnum \<Rightarrow> real \<Rightarrow> jsnum" where
  "js_times (Num x) c = Num (round53 (x * c))"
| "js_times PosInfinity c = (if 0 < c then PosInfinity else if c < 0 then NegInfinity else NaN)"
| "js_times NegInfinity c = (if 0 < c then NegInfinity else if c < 0 then PosInfinity else NaN)"
| "js_times NaN c = NaN"

text \<open>
  \<open>Math.round\<close>: the nearest integer, a half rounded up (an integer below \<open>2 ^ 53\<close>
  in magnitude is a number, and a number of greater magnitude is an integer already).
\<close>

fun Math_round :: "jsnum \<Rightarrow> jsnum" where
  "Math_round (Num x) = Num (of_int \<lfloor>x + 1 / 2\<rfloor>)"
| "Math_round PosInfinity = PosInfinity"
| "Math_round NegInfinity = NegInfinity"
| "Math_round NaN = NaN"

text \<open>\<open>x || y\<close> on numbers: \<open>0\<close> and \<open>NaN\<close> are falsy.\<close>

definition js_or :: "jsnum \<Rightarrow> jsnum \<Rightarrow> jsnum" where
  "js_or x y = (if x = NaN \<or> x = Num 0 then y else x)"

section \<open>The store\<close>

text \<open>A row of the table \<open>forge_features\<close>.\<close>

record feature =
  id_f :: string
  name :: string
  description :: string
  category :: string
  priority :: real
  status :: string
  instructions :: "string option"
  started_at :: "string option"
  completed_at :: "string option"
  error_message :: "string option"
  retry_count :: int

text \<open>
  The store: the rows of \<open>forge_features\<close> and the key/value table
  \<open>forge_config\<close>.
\<close>

record store =
  rows :: "feature list"
  config :: "string \<rightharpoonup> string"

text \<open>One column assignment of an \<open>update({...})\<close> object.\<close>

datatype assign =
    SetStatus string
  | SetPriority jsnum
  | SetRetryCount int
  | SetErrorMessage "string option"
  | SetCompletedAt string

text \<open>
  The calls the dashboard issues against the store.
  \<^item> \<open>Insert name description category priority status instructions reply\<close> is
    \<open>from('forge_features').insert({...})\<close> together with the \<open>error\<close> of the
    store's reply (\<open>None\<close>: the row was inserted);
  \<^item> \<open>Update patch id\<close> is \<open>from('forge_features').update(patch).eq('id', id)\<close>;
  \<^item> \<open>Delete id\<close> is \<open>from('forge_features').delete().eq('id', id)\<close>;
  \<^item> \<open>Upsert key value\<close> is \<open>from('forge_config').upsert({key, value})\<close>;
  \<^item> \<open>LoadData\<close> is a call of \<open>loadData()\<close>, which only reads.
  Replies of the calls whose result the source ignores are taken as successful.
\<close>

datatype store_call =
    Insert string string string jsnum string string "string option"
  | Update "assign list" string
  | Delete string
  | Upsert string string
  | LoadData

fun apply_assign :: "assign \<Rightarrow> feature \<Rightarrow> feature" where
  "apply_assign (SetStatus v) f = f\<lparr>status := v\<rparr>"
| "apply_assign (SetPriority v) f = (case v of Num x \<Rightarrow> f\<lparr>priority := x\<rparr> | _ \<Rightarrow> f)"
| "apply_assign (SetRetryCount v) f = f\<lparr>retry_count := v\<rparr>"
| "apply_assign (SetErrorMessage v) f = f\<lparr>error_message := v\<rparr>"
| "apply_assign (SetCompletedAt v) f = f\<lparr>completed_at := Some v\<rparr>"

fun apply_patch :: "assign list \<Rightarrow> feature \<Rightarrow> feature" where
  "apply_patch [] f = f"
| "apply_patch (a # as) f = apply_patch as (apply_assign a f)"

fun finite_num :: "jsnum \<Rightarrow> bool" where
  "finite_num (Num x) = True"
| "finite_num PosInfinity = False"
| "finite_num NegInfinity = False"
| "finite_num NaN = False"

fun finite_assign :: "assign \<Rightarrow> bool" where
  "finite_assign (SetPriority v) = finite_num v"
| "finite_assign (SetStatus v) = True"
| "finite_assign (SetRetryCount v) = True"
| "finite_assign (SetErrorMessage v) = True"
| "finite_assign (SetCompletedAt v) = True"

text \<open>
  The effect of one call on the store. \<open>dflt\<close> is the row the table's column defaults
  produce for an insert (the generated id among them). How the store treats a
  non-finite priority is not in the source: the model stops there (\<open>None\<close>).
\<close>

fun exec :: "feature \<Rightarrow> store_call \<Rightarrow> store \<Rightarrow> store option" where
  "exec dflt (Insert n d c p st ins reply) s =
     (case reply of
        Some e \<Rightarrow> Some s
      | None \<Rightarrow>
          (case p of
             Num x \<Rightarrow>
               Some (s\<lparr>rows := rows s @
                 [dflt\<lparr>name := n, description := d, category := c, priority := x,
                        status := st, instructions := Some ins\<rparr>]\<rparr>)
           | _ \<Rightarrow> None))"
| "exec dflt (Update patch i) s =
     (if list_all finite_assign patch
      then Some (s\<lparr>rows := map (\<lambda>f. if id_f f = i then apply_patch patch f else f) (rows s)\<rparr>)
      else None)"
| "exec dflt (Delete i) s = Some (s\<lparr>rows := filter (\<lambda>f. id_f f \<noteq> i) (rows s)\<rparr>)"
| "exec dflt (Upsert k v) s = Some (s\<lparr>config := (config s)(k \<mapsto> v)\<rparr>)"
| "exec dflt LoadData s = Some s"

fun run :: "feature \<Rightarrow> store_call list \<Rightarrow> store \<Rightarrow> store option" where
  "run dflt [] s = Some s"
| "run dflt (c # cs) s = (case exec dflt c s of None \<Rightarrow> None | Some s' \<Rightarrow> run dflt cs s')"

section \<open>The dashboard's state and handlers\<close>

text \<open>
  The React state of \<open>Dashboard\<close> that the handlers below read or write.
  \<open>features\<close> is the snapshot fetched by the last \<open>loadData\<close>; the state the
  handlers never touch (logs, loading, the settings switches) is left out. A toast is
  its message and its type (\<open>'success'\<close> or \<open>'error'\<close>); the timer that clears it
  is not modelled.
\<close>

record client =
  features :: "feature list"
  enginePaused :: bool
  specInput :: string
  showAddForm :: bool
  toast :: "(string \<times> string) option"
  selectedFeature :: "string option"

definition showToast :: "string \<Rightarrow> string \<Rightarrow> client \<Rightarrow> client" where
  "showToast message type c = c\<lparr>toast := Some (message, type)\<rparr>"

text \<open>
  \<open>loadData\<close>: the rows ordered by priority (rows of equal priority in the store's
  order) and the \<open>engine_paused\<close> key, when present.
\<close>

definition loadData :: "store \<Rightarrow> client \<Rightarrow> client" where
  "loadData s c =
     c\<lparr>features := sort_key priority (rows s),
       enginePaused := (case config s ''engine_paused'' of
                          None \<Rightarrow> enginePaused c
                        | Some v \<Rightarrow> v = ''true'')\<rparr>"

text \<open>
  Every handler returns the new client state and the calls it issued, in order.
  \<open>addFeature startNow reply\<close>: \<open>reply\<close> is the \<open>error\<close> the store returns for the
  insert. The check mark of the success toast is written as its three UTF-8 bytes.
\<close>

definition addFeature :: "bool \<Rightarrow> string option \<Rightarrow> client \<Rightarrow> client \<times> store_call list" where
  "addFeature startNow reply c =
     (let parsed = parseSpec (specInput c) in
      if name_p parsed = '''' then (showToast ''Missing NAME: in spec'' ''error'' c, [])
      else
        let pendingFeatures = filter (\<lambda>f. status f = ''pending'') (features c);
            lowestPriority =
              (if length pendingFeatures > 0
               then js_plus (Math_max (map priority pendingFeatures)) 1
               else Num 100);
            newPriority = (if startNow then Num 0 else lowestPriority);
            ins = Insert (name_p parsed)
                    (if description_p parsed = '''' then name_p parsed else description_p parsed)
                    (category_p parsed) newPriority ''pending'' (instructions_p parsed) reply
        in case reply of
             Some message \<Rightarrow> (showToast (''Failed to add: '' @ message) ''error'' c, [ins])
           | None \<Rightarrow>
               (let c1 = showToast ([CHR 0xE2, CHR 0x9C, CHR 0x93] @ '' '' @ name_p parsed @
                                    '' added to queue'') ''success'' c;
                    c2 = c1\<lparr>specInput := '''', showAddForm := False\<rparr>
                in if startNow \<and> enginePaused c
                   then (c2\<lparr>enginePaused := False\<rparr>,
                         [ins, LoadData, Upsert ''engine_paused'' ''false''])
                   else (c2, [ins, LoadData])))"

definition moveToTop :: "string \<Rightarrow> client \<Rightarrow> client \<times> store_call list" where
  "moveToTop i c =
     (let minPriority = Math_min (map priority (filter (\<lambda>f. status f = ''pending'') (features c)))
      in (showToast ''Moved to top'' ''success'' (c\<lparr>selectedFeature := None\<rparr>),
          [Update [SetPriority (js_minus minPriority 1)] i, LoadData]))"

definition moveUp :: "string \<Rightarrow> client \<Rightarrow> client \<times> store_call list" where
  "moveUp i c =
     (case find (\<lambda>f. id_f f = i) (features c) of
        None \<Rightarrow> (c, [])
      | Some feature \<Rightarrow>
          (c\<lparr>selectedFeature := None\<rparr>,
           [Update [SetPriority (js_minus (Num (priority feature)) 1.5)] i, LoadData]))"

definition skipFeature :: "string \<Rightarrow> client \<Rightarrow> client \<times> store_call list" where
  "skipFeature i c =
     (c\<lparr>selectedFeature := None\<rparr>, [Update [SetStatus ''skipped''] i, LoadData])"

definition retryFeature :: "string \<Rightarrow> client \<Rightarrow> client \<times> store_call list" where
  "retryFeature i c =
     (c\<lparr>selectedFeature := None\<rparr>,
      [Update [SetStatus ''pending'', SetRetryCount 0, SetErrorMessage None] i, LoadData])"

text \<open>\<open>now\<close> is \<open>new Date().toISOString()\<close>.\<close>

definition markCompleted :: "string \<Rightarrow> string \<Rightarrow> client \<Rightarrow> client \<times> store_call list" where
  "markCompleted now i c =
     (c\<lparr>selectedFeature := None\<rparr>,
      [Update [SetStatus ''completed'', SetCompletedAt now] i, LoadData])"

definition deleteFeature :: "string \<Rightarrow> client \<Rightarrow> client \<times> store_call list" where
  "deleteFeature i c =
     (showToast ''Feature deleted'' ''success'' (c\<lparr>selectedFeature := None\<rparr>),
      [Delete i, LoadData])"

text \<open>
  The earlier \<open>Dashboard\<close> kept in the repository (the first document of
  \<open>src/unnamed/part_000\<close>, lines 104 to 107) has its own \<open>retryFeature\<close>; it writes
  no client state.
\<close>

definition retryFeature_v1 :: "string \<Rightarrow> store_call list" where
  "retryFeature_v1 i = [Update [SetStatus ''pending'', SetRetryCount 0] i, LoadData]"

subsection \<open>The queue rows and the action sheet\<close>

text \<open>The \<open>onClick\<close> of a row of the queue.\<close>

definition clickFeature :: "feature \<Rightarrow> client \<Rightarrow> client" where
  "clickFeature feature c =
     (if status feature \<noteq> ''in_progress'' \<and> status feature \<noteq> ''completed''
      then c\<lparr>selectedFeature := Some (id_f feature)\<rparr> else c)"

datatype button = MoveToTop | MoveUp | MarkAsDone | Skip | Retry | Requeue | DeleteButton | Cancel

text \<open>\<open>features.find(f => f.id === selectedFeature)?.status\<close>.\<close>

definition selectedStatus :: "client \<Rightarrow> string \<Rightarrow> string option" where
  "selectedStatus c i = map_option status (find (\<lambda>f. id_f f = i) (features c))"

text \<open>
  The buttons the action sheet renders. The sheet is rendered under
  \<open>selectedFeature && ...\<close>, so not for \<open>null\<close> and not for the empty string.
\<close>

definition sheetButtons :: "client \<Rightarrow> button list" where
  "sheetButtons c =
     (case selectedFeature c of
        None \<Rightarrow> []
      | Some i \<Rightarrow>
          if i = '''' then []
          else (if selectedStatus c i = Some ''pending''
                then [MoveToTop, MoveUp, MarkAsDone, Skip] else []) @
               (if selectedStatus c i = Some ''failed'' then [Retry, Skip] else []) @
               (if selectedStatus c i = Some ''skipped'' then [Requeue] else []) @
               [DeleteButton, Cancel])"

text \<open>The \<open>onClick\<close> of each button of the sheet, on the selected id.\<close>

fun handler :: "button \<Rightarrow> string \<Rightarrow> string \<Rightarrow> client \<Rightarrow> client \<times> store_call list" where
  "handler MoveToTop now i c = moveToTop i c"
| "handler MoveUp now i c = moveUp i c"
| "handler MarkAsDone now i c = markCompleted now i c"
| "handler Skip now i c = skipFeature i c"
| "handler Retry now i c = retryFeature i c"
| "handler Requeue now i c = retryFeature i c"
| "handler DeleteButton now i c = deleteFeature i c"
| "handler Cancel now i c = (c\<lparr>selectedFeature := None\<rparr>, [])"

text \<open>A press of a button: only a rendered button can be pressed.\<close>

definition press :: "button \<Rightarrow> string \<Rightarrow> client \<Rightarrow> client \<times> store_call list" where
  "press b now c =
     (case selectedFeature c of
        None \<Rightarrow> (c, [])
      | Some i \<Rightarrow> if b \<in> set (sheetButtons c) then handler b now i c else (c, []))"

subsection \<open>Derived values\<close>

definition completed :: "client \<Rightarrow> nat" where
  "completed c = length (filter (\<lambda>f. status f = ''completed'') (features c))"

definition inProgress :: "client \<Rightarrow> nat" where
  "inProgress c = length (filter (\<lambda>f. status f = ''in_progress'') (features c))"

definition total :: "client \<Rightarrow> nat" where
  "total c = length (features c)"

definition isBuilding :: "client \<Rightarrow> bool" where
  "isBuilding c = (inProgress c > 0)"

definition isRunning :: "client \<Rightarrow> bool" where
  "isRunning c = (isBuilding c \<or> \<not> enginePaused c)"

definition isPausing :: "client \<Rightarrow> bool" where
  "isPausing c = (enginePaused c \<and> isBuilding c)"

text \<open>The text of the status pill.\<close>

definition statusPill :: "client \<Rightarrow> string" where
  "statusPill c = (if isPausing c then ''Pausing'' else if isRunning c then ''Running'' else ''Paused'')"

text \<open>
  The progress line: the percentage of the label,
  \<open>Math.round((completed/total)*100) || 0\<close>, and the percentage of the bar's width,
  \<open>(completed/total)*100\<close>.
\<close>

definition progressLabel :: "client \<Rightarrow> jsnum" where
  "progressLabel c = js_or (Math_round (js_times (js_div (completed c) (total c)) 100)) (Num 0)"

definition progressWidth :: "client \<Rightarrow> jsnum" where
  "progressWidth c = js_times (js_div (completed c) (total c)) 100"

section \<open>Example rows and states\<close>

text \<open>
  \<open>row i p st\<close> is a row with id \<open>i\<close>, priority \<open>p\<close> and status \<open>st\<close>, no
  timestamps and no error; \<open>dashboard fs paused spec\<close> is a dashboard whose snapshot is
  \<open>fs\<close>, with the add form open on the text \<open>spec\<close>.
\<close>

definition row :: "string \<Rightarrow> real \<Rightarrow> string \<Rightarrow> feature" where
  "row i p st =
     \<lparr>id_f = i, name = i, description = i, category = ''crm'', priority = p, status = st,
      instructions = None, started_at = None, completed_at = None, error_message = None,
      retry_count = 0\<rparr>"

definition dashboard :: "feature list \<Rightarrow> bool \<Rightarrow> string \<Rightarrow> client" where
  "dashboard fs paused spec =
     \<lparr>features = fs, enginePaused = paused, specInput = spec, showAddForm = True,
      toast = None, selectedFeature = None\<rparr>"

definition table :: "feature list \<Rightarrow> store" where
  "table fs = \<lparr>rows = fs, config = Map.empty\<rparr>"

text \<open>
  \<open>summary s\<close> lists id, priority and status of the rows; \<open>topOfPending i s\<close> says
  that every row with id \<open>i\<close> has a priority strictly below that of every pending row
  with another id; \<open>pendingPriorities c\<close> are the priorities of the snapshot's pending
  features. \<open>exact_priority p\<close> says that \<open>p\<close> is a multiple of 0.5 of magnitude at
  most \<open>2 ^ 51\<close>: the priorities on which adding 1, subtracting 1 and subtracting 1.5
  are exact. \<open>listed_before a b xs\<close> says that \<open>b\<close> stands somewhere after an
  occurrence of \<open>a\<close> in \<open>xs\<close>.
\<close>

definition exact_priority :: "real \<Rightarrow> bool" where
  "exact_priority p = (of_int \<lfloor>2 * p\<rfloor> = 2 * p \<and> \<bar>p\<bar> \<le> 2 ^ 51)"

fun listed_before :: "'a \<Rightarrow> 'a \<Rightarrow> 'a list \<Rightarrow> bool" where
  "listed_before a b [] = False"
| "listed_before a b (x # xs) = ((x = a \<and> b \<in> set xs) \<or> listed_before a b xs)"

definition summary :: "store \<Rightarrow> (string \<times> real \<times> string) list" where
  "summary s = map (\<lambda>f. (id_f f, priority f, status f)) (rows s)"


definition pendingPriorities :: "client \<Rightarrow> real list" where
  "pendingPriorities c = map priority (filter (\<lambda>f. status f = ''pending'') (features c))"

section \<open>Auxiliary facts\<close>

text \<open>A multiple of 0.5 of magnitude at most \<open>2 ^ 52\<close> is a number: rounding leaves it.\<close>

lemma rne_of_int: "rne (of_int k) = k"
  by (simp add: rne_def)

lemma round_at_exact:
  assumes "x / 2 powr of_int (e - 52) = of_int k"
  shows "round_at e x = x"
proof -
  have "round_at e x = 2 powr of_int (e - 52) * (x / 2 powr of_int (e - 52))"
    unfolding round_at_def assms rne_of_int ..
  also have "\<dots> = x" by simp
  finally show ?thesis .
qed

lemma round53_exact:
  assumes h: "of_int \<lfloor>2 * x\<rfloor> = 2 * x" and b: "\<bar>x\<bar> \<le> 2 ^ 52"
  shows "round53 x = x"
proof (cases "x = 0")
  case True
  then show ?thesis by (simp add: round53_def)
next
  case False
  define e where "e = \<lfloor>log 2 \<bar>x\<bar>\<rfloor>"
  from False have pos: "0 < \<bar>x\<bar>" by simp
  have lo: "2 powr of_int e \<le> \<bar>x\<bar>"
    using pos floor_log_eq_powr_iff [of "\<bar>x\<bar>" 2 e] by (simp add: e_def)
  have "(2::real) ^ 52 < 2 powr real_of_int 53"
    by (simp add: powr_numeral)
  with lo b have "(2::real) powr of_int e < 2 powr of_int 53" by simp
  then have "real_of_int e < real_of_int 53"
    by (simp only: powr_less_cancel_iff one_less_numeral_iff num.simps semiring_norm)
  then have e52: "e \<le> 52" by simp
  have "\<exists>k. x / 2 powr of_int (e - 52) = of_int k"
  proof (cases "e = 52")
    case True
    with lo have "2 ^ 52 \<le> \<bar>x\<bar>" by simp
    with b have ax: "\<bar>x\<bar> = 2 ^ 52" by simp
    then have "x = 2 ^ 52 \<or> x = - (2 ^ 52)" by (simp add: abs_if split: if_splits)
    then have "x \<in> \<int>" by (auto simp del: power_numeral)
    then obtain k where "x = of_int k" by (rule Ints_cases)
    moreover from True have "x / 2 powr of_int (e - 52) = x" by simp
    ultimately show ?thesis by auto
  next
    case False
    with e52 have d: "0 \<le> 51 - e" by simp
    define n where "n = nat (51 - e)"
    have "(2::real) powr of_int (e - 52) = inverse (2 powr of_int (52 - e))"
      using powr_minus [of "2::real" "of_int (52 - e)"] by simp
    moreover have "(2::real) powr of_int (52 - e) = 2 ^ Suc n"
    proof -
      have "of_int (52 - e) = real (Suc n)" using d by (simp add: n_def)
      then show ?thesis by (simp only: powr_realpow zero_less_numeral)
    qed
    ultimately have "x / 2 powr of_int (e - 52) = x * 2 ^ Suc n"
      by (simp add: field_simps)
    also have "\<dots> = (2 * x) * 2 ^ n" by simp
    also have "\<dots> = of_int \<lfloor>2 * x\<rfloor> * 2 ^ n" by (simp only: h)
    also have "\<dots> = of_int (\<lfloor>2 * x\<rfloor> * 2 ^ n)" by simp
    finally show ?thesis by blast
  qed
  then obtain k where "x / 2 powr of_int (e - 52) = of_int k" ..
  then have "round_at e x = x" by (rule round_at_exact)
  with False show ?thesis by (simp add: round53_def e_def)
qed

text \<open>Rounding with the exponent given, for a number that is not exact.\<close>

lemma round53_at:
  assumes "x \<noteq> 0" and "2 powr of_int e \<le> \<bar>x\<bar>" and "\<bar>x\<bar> < 2 powr of_int (e + 1)"
  shows "round53 x = round_at e x"
proof -
  from assms have "\<lfloor>log 2 \<bar>x\<bar>\<rfloor> = e"
    using floor_log_eq_powr_iff [of "\<bar>x\<bar>" 2 e] by simp
  with assms(1) show ?thesis by (simp add: round53_def)
qed


lemma round53_big: "round53 (2 ^ 55 - 1.5) = 2 ^ 55"
proof -
  have "round53 (2 ^ 55 - 1.5) = round_at 54 (2 ^ 55 - 1.5)"
    by (rule round53_at) (simp_all add: powr_numeral)
  also have "\<dots> = 2 ^ 55"
    by (simp add: round_at_def rne_def Let_def)
  finally show ?thesis .
qed





text \<open>The three steps of the source on an exact priority.\<close>

lemma exact_priority_shift:
  assumes "exact_priority p" and "\<bar>of_int k\<bar> \<le> (4::real)"
  shows "round53 (p + of_int k / 2) = p + of_int k / 2"
proof (rule round53_exact)
  from assms(1) have h: "of_int \<lfloor>2 * p\<rfloor> = 2 * p" by (simp only: exact_priority_def)
  have "2 * (p + of_int k / 2) = of_int (\<lfloor>2 * p\<rfloor> + k)"
    by (simp add: h)
  then show "of_int \<lfloor>2 * (p + of_int k / 2)\<rfloor> = 2 * (p + of_int k / 2)"
    by (simp only: floor_of_int)
  from assms(1) have "\<bar>p\<bar> \<le> 2 ^ 51" by (simp only: exact_priority_def)
  with assms(2) show "\<bar>p + of_int k / 2\<bar> \<le> 2 ^ 52" by simp
qed


lemma exact_plus_1: "exact_priority p \<Longrightarrow> round53 (p + 1) = p + 1"
  using exact_priority_shift [of p 2] by simp

lemma exact_minus_3_halves: "exact_priority p \<Longrightarrow> round53 (p - 1.5) = p - 1.5"
  using exact_priority_shift [of p "- 3"] by simp

text \<open>In a list sorted by a key, an element of smaller key stands before one of greater key.\<close>

lemma sorted_listed_before:
  "sorted (map k xs) \<Longrightarrow> a \<in> set xs \<Longrightarrow> b \<in> set xs \<Longrightarrow> k a < k b \<Longrightarrow>
   listed_before a b xs"
proof (induction xs)
  case Nil
  then show ?case by simp
next
  case (Cons x xs)
  show ?case
  proof (cases "x = a")
    case True
    from Cons.prems have "b \<noteq> a" by auto
    with Cons.prems True have "b \<in> set xs" by auto
    with True show ?thesis by simp
  next
    case False
    with Cons.prems have a: "a \<in> set xs" by simp
    from Cons.prems have le: "\<forall>y\<in>set xs. k x \<le> k y" by simp
    with a have "k x \<le> k a" by blast
    with Cons.prems have "b \<noteq> x" by auto
    with Cons.prems have b: "b \<in> set xs" by simp
    from Cons.prems have "sorted (map k xs)" by simp
    with a b Cons.prems have "listed_before a b xs" by (intro Cons.IH)
    then show ?thesis by simp
  qed
qed


lemma Math_max_Max: "xs \<noteq> [] \<Longrightarrow> Math_max xs = Num (Max (set xs))"
proof (induction xs)
  case Nil
  then show ?case by simp
next
  case (Cons x xs)
  show ?case
  proof (cases "xs = []")
    case True
    then show ?thesis by simp
  next
    case False
    with Cons.IH have "Math_max xs = Num (Max (set xs))" by simp
    with False show ?thesis by (simp add: max_def)
  qed
qed

text \<open>An update with finite numbers, followed by the reload.\<close>

lemma run_update:
  "list_all finite_assign patch \<Longrightarrow>
   run dflt [Update patch i, LoadData] s =
     Some (s\<lparr>rows := map (\<lambda>f. if id_f f = i then apply_patch patch f else f) (rows s)\<rparr>)"
  by simp

text \<open>A marker that heads no line leaves the loop variable it sets untouched.\<close>

lemma parseLines_name:
  "\<forall>line\<in>set lines. \<not> startsWith line ''NAME:'' \<Longrightarrow>
   name_p (parseLines lines n cat d il ii) = n"
  by (induction lines arbitrary: cat d il ii) simp_all

lemma parseLines_category:
  "\<forall>line\<in>set lines. \<not> startsWith line ''CATEGORY:'' \<Longrightarrow>
   category_p (parseLines lines n cat d il ii) = cat"
  by (induction lines arbitrary: n d il ii) simp_all

lemma parseLines_description:
  "\<forall>line\<in>set lines. \<not> startsWith line ''DESCRIPTION:'' \<Longrightarrow>
   description_p (parseLines lines n cat d il ii) = d"
  by (induction lines arbitrary: n cat il ii) simp_all

section \<open>The status pill\<close>

text \<open>
  Claim C4. The status pill shows \<open>Pausing\<close> when \<open>enginePaused\<close> is set and at least
  one feature of the snapshot is \<open>in_progress\<close>, \<open>Paused\<close> when \<open>enginePaused\<close> is set
  and none is, and \<open>Running\<close> when \<open>enginePaused\<close> is not set, whatever the number of
  \<open>in_progress\<close> features.
\<close>

theorem statusPill_derivation:
  "(enginePaused c \<and> 1 \<le> inProgress c \<longrightarrow> statusPill c = ''Pausing'') \<and>
   (enginePaused c \<and> inProgress c = 0 \<longrightarrow> statusPill c = ''Paused'') \<and>
   (\<not> enginePaused c \<longrightarrow> statusPill c = ''Running'')"
  by (simp add: statusPill_def isPausing_def isRunning_def isBuilding_def)

theorem statusPill_derivation_witness:
  "statusPill (dashboard [row ''a'' 1 ''in_progress'', row ''b'' 2 ''pending''] True '''') = ''Pausing'' \<and>
   statusPill (dashboard [row ''a'' 1 ''completed'', row ''b'' 2 ''pending''] True '''') = ''Paused'' \<and>
   statusPill (dashboard [row ''a'' 1 ''in_progress'', row ''b'' 2 ''in_progress''] False '''') = ''Running'' \<and>
   statusPill (dashboard [] False '''') = ''Running''"
  using statusPill_derivation [of "dashboard [row ''a'' 1 ''in_progress'', row ''b'' 2 ''pending''] True ''''"]
    statusPill_derivation [of "dashboard [row ''a'' 1 ''completed'', row ''b'' 2 ''pending''] True ''''"]
    statusPill_derivation [of "dashboard [row ''a'' 1 ''in_progress'', row ''b'' 2 ''in_progress''] False ''''"]
    statusPill_derivation [of "dashboard [] False ''''"]
  by (simp add: inProgress_def dashboard_def row_def)

section \<open>Parsing and adding a feature\<close>

text \<open>
  Claim C8. \<open>parseSpec\<close> maps the example text of the specification to the record with
  name \<open>Foo\<close>, category \<open>crm\<close>, description \<open>does thing\<close> and the two instruction
  lines. For every text, when no line starts with \<open>CATEGORY:\<close> the category is the
  baseline \<open>crm\<close>; when no line starts with \<open>DESCRIPTION:\<close> (and the name is not
  empty, so that a row is inserted at all) the description \<open>addFeature\<close> inserts is
  the name.
\<close>

theorem parseSpec_example_and_defaults:
  "parseSpec ''NAME: Foo\<newline>CATEGORY: crm\<newline>DESCRIPTION: does thing\<newline>---\<newline>step 1\<newline>step 2'' =
     \<lparr>name_p = ''Foo'', category_p = ''crm'', description_p = ''does thing'',
      instructions_p = ''step 1\<newline>step 2''\<rparr> \<and>
   ((\<forall>line\<in>set (split_nl (trim spec)). \<not> startsWith line ''CATEGORY:'') \<longrightarrow>
      category_p (parseSpec spec) = ''crm'') \<and>
   ((\<forall>line\<in>set (split_nl (trim (specInput c))). \<not> startsWith line ''DESCRIPTION:'') \<and>
    name_p (parseSpec (specInput c)) \<noteq> '''' \<longrightarrow>
      (\<exists>p rest. snd (addFeature startNow reply c) =
         Insert (name_p (parseSpec (specInput c))) (name_p (parseSpec (specInput c)))
           (category_p (parseSpec (specInput c))) p ''pending''
           (instructions_p (parseSpec (specInput c))) reply # rest))"
proof (intro conjI impI)
  show "parseSpec ''NAME: Foo\<newline>CATEGORY: crm\<newline>DESCRIPTION: does thing\<newline>---\<newline>step 1\<newline>step 2'' =
     \<lparr>name_p = ''Foo'', category_p = ''crm'', description_p = ''does thing'',
      instructions_p = ''step 1\<newline>step 2''\<rparr>"
    by (simp add: parseSpec_def trim_def isWhiteSpace_def startsWith_def)
next
  assume "\<forall>line\<in>set (split_nl (trim spec)). \<not> startsWith line ''CATEGORY:''"
  then show "category_p (parseSpec spec) = ''crm''"
    unfolding parseSpec_def by (rule parseLines_category)
next
  assume a: "(\<forall>line\<in>set (split_nl (trim (specInput c))). \<not> startsWith line ''DESCRIPTION:'') \<and>
    name_p (parseSpec (specInput c)) \<noteq> ''''"
  then have d: "description_p (parseSpec (specInput c)) = ''''"
    unfolding parseSpec_def by (simp add: parseLines_description)
  from a have n: "name_p (parseSpec (specInput c)) \<noteq> ''''" by simp
  show "\<exists>p rest. snd (addFeature startNow reply c) =
         Insert (name_p (parseSpec (specInput c))) (name_p (parseSpec (specInput c)))
           (category_p (parseSpec (specInput c))) p ''pending''
           (instructions_p (parseSpec (specInput c))) reply # rest"
    using d n by (cases reply) (simp_all add: addFeature_def Let_def)
qed

theorem parseSpec_example_and_defaults_witness:
  "category_p (parseSpec ''NAME: Foo\<newline>---\<newline>do it'') = ''crm'' \<and>
   snd (addFeature False None (dashboard [] True ''NAME: Foo\<newline>---\<newline>do it'')) =
     [Insert ''Foo'' ''Foo'' ''crm'' (Num 100) ''pending'' ''do it'' None, LoadData]"
  using parseSpec_example_and_defaults
    [of "''NAME: Foo\<newline>---\<newline>do it''"
        "dashboard [] True ''NAME: Foo\<newline>---\<newline>do it''" False None]
  by (simp add: addFeature_def Let_def dashboard_def parseSpec_def trim_def isWhiteSpace_def
      startsWith_def showToast_def)

text \<open>
  Claim C9. When no line of the text starts with \<open>NAME:\<close>, or the name after the
  marker is empty, \<open>addFeature\<close> only raises the error toast
  \<open>Missing NAME: in spec\<close>: it issues no call against the store, so nothing is
  inserted and the store is as before, and no other state of the dashboard changes.
\<close>

theorem addFeature_rejects_missing_name:
  "((\<forall>line\<in>set (split_nl (trim (specInput c))). \<not> startsWith line ''NAME:'') \<longrightarrow>
      name_p (parseSpec (specInput c)) = '''') \<and>
   (name_p (parseSpec (specInput c)) = '''' \<longrightarrow>
      addFeature startNow reply c = (c\<lparr>toast := Some (''Missing NAME: in spec'', ''error'')\<rparr>, []) \<and>
      run dflt (snd (addFeature startNow reply c)) s = Some s)"
proof (intro conjI impI)
  assume "\<forall>line\<in>set (split_nl (trim (specInput c))). \<not> startsWith line ''NAME:''"
  then show "name_p (parseSpec (specInput c)) = ''''"
    unfolding parseSpec_def by (rule parseLines_name)
next
  assume e: "name_p (parseSpec (specInput c)) = ''''"
  then show "addFeature startNow reply c =
      (c\<lparr>toast := Some (''Missing NAME: in spec'', ''error'')\<rparr>, [])"
    by (simp add: addFeature_def showToast_def)
  then show "run dflt (snd (addFeature startNow reply c)) s = Some s"
    by simp
qed

theorem addFeature_rejects_missing_name_witness:
  "addFeature True None (dashboard [row ''a'' 1 ''pending''] True ''CATEGORY: crm\<newline>---\<newline>do it'') =
     (dashboard [row ''a'' 1 ''pending''] True ''CATEGORY: crm\<newline>---\<newline>do it''
        \<lparr>toast := Some (''Missing NAME: in spec'', ''error'')\<rparr>, []) \<and>
   run (row ''n'' 0 '''') (snd (addFeature True None
      (dashboard [row ''a'' 1 ''pending''] True ''CATEGORY: crm\<newline>---\<newline>do it'')))
      (table [row ''a'' 1 ''pending'']) = Some (table [row ''a'' 1 ''pending'']) \<and>
   addFeature False None (dashboard [] True ''NAME:   \<newline>DESCRIPTION: x'') =
     (dashboard [] True ''NAME:   \<newline>DESCRIPTION: x''
        \<lparr>toast := Some (''Missing NAME: in spec'', ''error'')\<rparr>, [])"
  using addFeature_rejects_missing_name
    [of "dashboard [row ''a'' 1 ''pending''] True ''CATEGORY: crm\<newline>---\<newline>do it''"
        True None "row ''n'' 0 ''''" "table [row ''a'' 1 ''pending'']"]
    addFeature_rejects_missing_name
    [of "dashboard [] True ''NAME:   \<newline>DESCRIPTION: x''" False None]
  by (simp add: dashboard_def parseSpec_def trim_def isWhiteSpace_def startsWith_def)

text \<open>
  Claim C10. An \<open>addFeature\<close> with \<open>startNow\<close> that passes the name check and whose
  insert succeeds, issued while the dashboard's \<open>enginePaused\<close> is set, issues the
  insert, the reload and then the upsert of \<open>engine_paused\<close> to \<open>false\<close>: the key
  holds \<open>false\<close> in the store afterwards and the dashboard's flag is cleared. An
  \<open>addFeature\<close> without \<open>startNow\<close> issues no upsert, leaves every key of the
  configuration as it was and leaves the dashboard's flag as it was.
\<close>

theorem addFeature_startNow_unpauses:
  "(name_p (parseSpec (specInput c)) \<noteq> '''' \<and> enginePaused c \<longrightarrow>
      snd (addFeature True None c) =
        [Insert (name_p (parseSpec (specInput c)))
           (if description_p (parseSpec (specInput c)) = '''' then name_p (parseSpec (specInput c))
            else description_p (parseSpec (specInput c)))
           (category_p (parseSpec (specInput c))) (Num 0) ''pending''
           (instructions_p (parseSpec (specInput c))) None,
         LoadData, Upsert ''engine_paused'' ''false''] \<and>
      enginePaused (fst (addFeature True None c)) = False \<and>
      (\<exists>s'. run dflt (snd (addFeature True None c)) s = Some s' \<and>
            config s' = (config s)(''engine_paused'' \<mapsto> ''false''))) \<and>
   (\<forall>call\<in>set (snd (addFeature False reply c)). \<forall>k v. call \<noteq> Upsert k v) \<and>
   (\<exists>s'. run dflt (snd (addFeature False reply c)) s = Some s' \<and> config s' = config s) \<and>
   enginePaused (fst (addFeature False reply c)) = enginePaused c"
proof (intro conjI impI)
  assume a: "name_p (parseSpec (specInput c)) \<noteq> '''' \<and> enginePaused c"
  then show "snd (addFeature True None c) =
        [Insert (name_p (parseSpec (specInput c)))
           (if description_p (parseSpec (specInput c)) = '''' then name_p (parseSpec (specInput c))
            else description_p (parseSpec (specInput c)))
           (category_p (parseSpec (specInput c))) (Num 0) ''pending''
           (instructions_p (parseSpec (specInput c))) None,
         LoadData, Upsert ''engine_paused'' ''false'']"
    by (simp add: addFeature_def Let_def)
  from a show "enginePaused (fst (addFeature True None c)) = False"
    by (simp add: addFeature_def Let_def)
  from a show "\<exists>s'. run dflt (snd (addFeature True None c)) s = Some s' \<and>
            config s' = (config s)(''engine_paused'' \<mapsto> ''false'')"
    by (simp add: addFeature_def Let_def)
next
  show "\<forall>call\<in>set (snd (addFeature False reply c)). \<forall>k v. call \<noteq> Upsert k v"
    by (cases reply) (simp_all add: addFeature_def Let_def)
  show "\<exists>s'. run dflt (snd (addFeature False reply c)) s = Some s' \<and> config s' = config s"
    by (cases reply) (simp_all add: addFeature_def Let_def Math_max_Max)
  show "enginePaused (fst (addFeature False reply c)) = enginePaused c"
    by (cases reply) (simp_all add: addFeature_def Let_def showToast_def)
qed

theorem addFeature_startNow_unpauses_witness:
  "snd (addFeature True None (dashboard [row ''a'' 5 ''pending''] True ''NAME: Foo'')) =
     [Insert ''Foo'' ''Foo'' ''crm'' (Num 0) ''pending'' '''' None, LoadData,
      Upsert ''engine_paused'' ''false''] \<and>
   map_option (\<lambda>s. config s ''engine_paused'')
     (run (row ''n'' 0 '''') (snd (addFeature True None (dashboard [row ''a'' 5 ''pending''] True ''NAME: Foo'')))
       (table [row ''a'' 5 ''pending''])) = Some (Some ''false'') \<and>
   snd (addFeature False None (dashboard [row ''a'' 5 ''pending''] True ''NAME: Foo'')) =
     [Insert ''Foo'' ''Foo'' ''crm'' (Num 6) ''pending'' '''' None, LoadData] \<and>
   map_option (\<lambda>s. config s ''engine_paused'')
     (run (row ''n'' 0 '''') (snd (addFeature False None (dashboard [row ''a'' 5 ''pending''] True ''NAME: Foo'')))
       (table [row ''a'' 5 ''pending''])) = Some None"
  using addFeature_startNow_unpauses
    [of "dashboard [row ''a'' 5 ''pending''] True ''NAME: Foo''" "row ''n'' 0 ''''"
        "table [row ''a'' 5 ''pending'']" None]
  by (simp add: addFeature_def Let_def dashboard_def table_def row_def parseSpec_def trim_def
      isWhiteSpace_def startsWith_def round53_exact)

section \<open>Reordering\<close>







section \<open>Operator transitions\<close>

lemma sheetButtons_gated:
  assumes "selectedFeature c = Some i"
    and "selectedStatus c i \<noteq> Some ''pending''"
    and "selectedStatus c i \<noteq> Some ''failed''"
    and "selectedStatus c i \<noteq> Some ''skipped''"
  shows "set (sheetButtons c) \<subseteq> {DeleteButton, Cancel}"
  using assms by (simp add: sheetButtons_def)

text \<open>
  Claim C2, as amended. The dashboard gates the operator transitions by the status in
  its snapshot, and silently: a click on a row whose status is \<open>in_progress\<close> or
  \<open>completed\<close> selects nothing, and when the selected id's status in the snapshot is
  not \<open>pending\<close>, \<open>failed\<close> or \<open>skipped\<close> the sheet renders no button but Delete and
  Cancel, so a skip, retry, mark-as-done or re-queue (or a move) issues no call and
  the store is unchanged. Nothing is reported, and the handlers check no status.
\<close>

theorem transitions_gated_by_snapshot:
  "(status f = ''in_progress'' \<or> status f = ''completed'' \<longrightarrow> clickFeature f c = c) \<and>
   (selectedFeature c = Some i \<and>
    selectedStatus c i \<noteq> Some ''pending'' \<and> selectedStatus c i \<noteq> Some ''failed'' \<and>
    selectedStatus c i \<noteq> Some ''skipped'' \<and> b \<noteq> DeleteButton \<and> b \<noteq> Cancel \<longrightarrow>
      press b now c = (c, []) \<and> run dflt (snd (press b now c)) s = Some s)"
proof (intro conjI impI)
  assume "status f = ''in_progress'' \<or> status f = ''completed''"
  then show "clickFeature f c = c" by (auto simp: clickFeature_def)
next
  assume a: "selectedFeature c = Some i \<and>
    selectedStatus c i \<noteq> Some ''pending'' \<and> selectedStatus c i \<noteq> Some ''failed'' \<and>
    selectedStatus c i \<noteq> Some ''skipped'' \<and> b \<noteq> DeleteButton \<and> b \<noteq> Cancel"
  then have "set (sheetButtons c) \<subseteq> {DeleteButton, Cancel}"
    by (intro sheetButtons_gated [of c i]) simp_all
  with a have "b \<notin> set (sheetButtons c)" by blast
  with a show p: "press b now c = (c, [])" by (simp add: press_def)
  show "run dflt (snd (press b now c)) s = Some s" unfolding p by simp
qed

theorem transitions_gated_by_snapshot_witness:
  "clickFeature (row ''a'' 1 ''in_progress'') (dashboard [row ''a'' 1 ''in_progress''] False '''') =
     dashboard [row ''a'' 1 ''in_progress''] False '''' \<and>
   press Skip ''t'' (dashboard [row ''a'' 1 ''completed''] False '''' \<lparr>selectedFeature := Some ''a''\<rparr>) =
     (dashboard [row ''a'' 1 ''completed''] False '''' \<lparr>selectedFeature := Some ''a''\<rparr>, []) \<and>
   run (row ''n'' 0 '''')
     (snd (press Retry ''t'' (dashboard [row ''a'' 1 ''in_progress''] False '''' \<lparr>selectedFeature := Some ''a''\<rparr>)))
     (table [row ''a'' 1 ''in_progress'']) = Some (table [row ''a'' 1 ''in_progress''])"
  using transitions_gated_by_snapshot
    [of "row ''a'' 1 ''in_progress''" "dashboard [row ''a'' 1 ''in_progress''] False ''''"]
    transitions_gated_by_snapshot
    [of _ "dashboard [row ''a'' 1 ''completed''] False '''' \<lparr>selectedFeature := Some ''a''\<rparr>"
        "''a''" Skip "''t''"]
    transitions_gated_by_snapshot
    [of _ "dashboard [row ''a'' 1 ''in_progress''] False '''' \<lparr>selectedFeature := Some ''a''\<rparr>"
        "''a''" Retry "''t''" "row ''n'' 0 ''''" "table [row ''a'' 1 ''in_progress'']"]
  by (simp add: dashboard_def row_def selectedStatus_def)

text \<open>
  The claim as stated fails: no handler rejects. A row the snapshot still shows as
  \<open>pending\<close> while the store has it \<open>in_progress\<close> is skipped by a click and a press
  of Skip; \<open>retryFeature\<close> called on a \<open>completed\<close> row sets it back to \<open>pending\<close>;
  neither raises a toast.
\<close>

theorem transitions_unchecked_counterexample:
  "map_option summary
     (run (row ''n'' 0 '''')
        (snd (press Skip ''t''
           (clickFeature (row ''a'' 1 ''pending'') (dashboard [row ''a'' 1 ''pending''] False ''''))))
        (table [row ''a'' 1 ''in_progress''])) = Some [(''a'', 1, ''skipped'')] \<and>
   toast (fst (press Skip ''t''
           (clickFeature (row ''a'' 1 ''pending'') (dashboard [row ''a'' 1 ''pending''] False '''')))) = None \<and>
   map_option summary
     (run (row ''n'' 0 '''') (snd (retryFeature ''a'' (dashboard [row ''a'' 1 ''completed''] False '''')))
        (table [row ''a'' 1 ''completed''])) = Some [(''a'', 1, ''pending'')] \<and>
   toast (fst (retryFeature ''a'' (dashboard [row ''a'' 1 ''completed''] False ''''))) = None"
  by (simp add: press_def clickFeature_def sheetButtons_def selectedStatus_def skipFeature_def
      retryFeature_def dashboard_def table_def row_def summary_def)

section \<open>Move up and append\<close>

lemma moveUp_calls:
  assumes "find (\<lambda>g. id_f g = i) (features c) = Some f"
  shows "moveUp i c =
     (c\<lparr>selectedFeature := None\<rparr>,
      [Update [SetPriority (Num (round53 (priority f - 1.5)))] i, LoadData])"
  using assms by (simp add: moveUp_def)

text \<open>The rows after an update of the priority: those with the id hold the new
  priority, the others are as before.\<close>

lemma priority_update_hit:
  assumes "x \<in> set (map (\<lambda>g. if id_f g = i then apply_patch [SetPriority (Num m)] g else g) rs)"
    and "id_f x = i"
  shows "priority x = m"
proof -
  from assms(1) have "x \<in> (\<lambda>g. if id_f g = i then apply_patch [SetPriority (Num m)] g else g) ` set rs"
    by simp
  then obtain g0 where xe: "x = (if id_f g0 = i then apply_patch [SetPriority (Num m)] g0 else g0)"
    by (rule imageE)
  show ?thesis
  proof (cases "id_f g0 = i")
    case True
    with xe show ?thesis by simp
  next
    case False
    with xe assms(2) show ?thesis by simp
  qed
qed

lemma priority_update_miss:
  assumes "g \<in> set rs" and "id_f g \<noteq> i"
  shows "g \<in> set (map (\<lambda>g. if id_f g = i then apply_patch [SetPriority (Num m)] g else g) rs)"
proof -
  from assms(2) have "g = (if id_f g = i then apply_patch [SetPriority (Num m)] g else g)"
    by simp
  with assms(1) have "g \<in> (\<lambda>g. if id_f g = i then apply_patch [SetPriority (Num m)] g else g) ` set rs"
    by (rule rev_image_eqI)
  then show ?thesis by simp
qed

text \<open>The next snapshot lists a row of smaller priority before one of greater priority.\<close>

lemma queue_before:
  assumes "x \<in> set (rows s)" and "g \<in> set (rows s)" and "priority x < priority g"
  shows "listed_before x g (features (loadData s c))"
proof -
  have "sorted (map priority (sort_key priority (rows s)))"
    by (rule sorted_sort_key)
  moreover from assms have "x \<in> set (sort_key priority (rows s))" "g \<in> set (sort_key priority (rows s))"
    by simp_all
  ultimately have "listed_before x g (sort_key priority (rows s))"
    using assms(3) by (rule sorted_listed_before)
  then show ?thesis by (simp add: loadData_def)
qed

text \<open>
  Claim C7, as amended. \<open>moveUp\<close> writes the rounded difference of the priority the
  snapshot holds for the feature and 1.5 to the rows with its id. When that priority
  is a multiple of 0.5 of magnitude at most \<open>2 ^ 51\<close> the difference is exact. When
  the difference is exact, the rows with the id hold the snapshot's priority minus
  1.5 after the call, and such a row has a priority strictly below that of another
  row of the store exactly when
  the gap to it (the feature's priority in the snapshot minus the other row's
  priority in the store) is smaller than 1.5; the next snapshot then lists it
  before the other row, and after it when the gap is greater than 1.5. Without
  \<open>startNow\<close>, a feature that passes the name check is inserted with the rounded sum
  of the greatest priority of the snapshot's pending features and 1 (exact for a
  multiple of 0.5 of magnitude at most \<open>2 ^ 51\<close>), or with 100 when the snapshot has
  no pending feature.
\<close>

theorem moveUp_and_append:
  "(find (\<lambda>g. id_f g = i) (features c) = Some f \<longrightarrow>
      moveUp i c =
        (c\<lparr>selectedFeature := None\<rparr>,
         [Update [SetPriority (Num (round53 (priority f - 1.5)))] i, LoadData]) \<and>
      (exact_priority (priority f) \<longrightarrow>
         round53 (priority f - 1.5) = priority f - 1.5) \<and>
      (round53 (priority f - 1.5) = priority f - 1.5 \<longrightarrow>
         (\<exists>s'. run dflt (snd (moveUp i c)) s = Some s' \<and>
            (\<forall>x\<in>set (rows s'). id_f x = i \<longrightarrow> priority x = priority f - 1.5) \<and>
            (\<forall>g\<in>set (rows s). id_f g \<noteq> i \<longrightarrow>
               g \<in> set (rows s') \<and>
               (\<forall>x\<in>set (rows s'). id_f x = i \<longrightarrow>
                  (priority x < priority g) = (priority f - priority g < 1.5) \<and>
                  (priority f - priority g < 1.5 \<longrightarrow>
                     listed_before x g (features (loadData s' c'))) \<and>
                  (1.5 < priority f - priority g \<longrightarrow>
                     listed_before g x (features (loadData s' c')))))))) \<and>
   (name_p (parseSpec (specInput c)) \<noteq> '''' \<longrightarrow>
      (\<exists>d rest. snd (addFeature False reply c) =
         Insert (name_p (parseSpec (specInput c))) d (category_p (parseSpec (specInput c)))
           (if pendingPriorities c = [] then Num 100
            else Num (round53 (Max (set (pendingPriorities c)) + 1)))
           ''pending'' (instructions_p (parseSpec (specInput c))) reply # rest)) \<and>
   (exact_priority (Max (set (pendingPriorities c))) \<longrightarrow>
      round53 (Max (set (pendingPriorities c)) + 1) = Max (set (pendingPriorities c)) + 1)"
proof (intro conjI impI)
  assume a: "find (\<lambda>g. id_f g = i) (features c) = Some f"
  then show m: "moveUp i c =
        (c\<lparr>selectedFeature := None\<rparr>,
         [Update [SetPriority (Num (round53 (priority f - 1.5)))] i, LoadData])"
    by (rule moveUp_calls)
  {
    assume "exact_priority (priority f)"
    then show "round53 (priority f - 1.5) = priority f - 1.5"
      by (rule exact_minus_3_halves)
  }
  assume ex: "round53 (priority f - 1.5) = priority f - 1.5"
  let ?m = "priority f - 1.5"
  let ?rs = "map (\<lambda>g. if id_f g = i then apply_patch [SetPriority (Num ?m)] g else g) (rows s)"
  let ?s' = "s\<lparr>rows := ?rs\<rparr>"
  have "snd (moveUp i c) = [Update [SetPriority (Num ?m)] i, LoadData]"
    unfolding m ex by simp
  then have r: "run dflt (snd (moveUp i c)) s = Some ?s'"
    by (simp add: run_update del: run.simps exec.simps)
  have rows: "rows ?s' = ?rs" by simp
  have hit: "\<forall>x\<in>set (rows ?s'). id_f x = i \<longrightarrow> priority x = ?m"
    unfolding rows by (intro ballI impI) (rule priority_update_hit)
  have other: "\<forall>g\<in>set (rows s). id_f g \<noteq> i \<longrightarrow>
       g \<in> set (rows ?s') \<and>
       (\<forall>x\<in>set (rows ?s'). id_f x = i \<longrightarrow>
          (priority x < priority g) = (priority f - priority g < 1.5) \<and>
          (priority f - priority g < 1.5 \<longrightarrow> listed_before x g (features (loadData ?s' c'))) \<and>
          (1.5 < priority f - priority g \<longrightarrow> listed_before g x (features (loadData ?s' c'))))"
  proof (intro ballI impI conjI)
    fix g assume g: "g \<in> set (rows s)" and gi: "id_f g \<noteq> i"
    then show g': "g \<in> set (rows ?s')"
      unfolding rows by (rule priority_update_miss)
    fix x assume x: "x \<in> set (rows ?s')" and xi: "id_f x = i"
    with hit have px: "priority x = ?m" by blast
    then show "(priority x < priority g) = (priority f - priority g < 1.5)"
      by auto
    {
      assume "priority f - priority g < 1.5"
      with px have "priority x < priority g" by simp
      with x g' show "listed_before x g (features (loadData ?s' c'))"
        by (rule queue_before)
    }
    {
      assume "1.5 < priority f - priority g"
      with px have "priority g < priority x" by simp
      with g' x show "listed_before g x (features (loadData ?s' c'))"
        by (rule queue_before)
    }
  qed
  from r hit other
  show "\<exists>s'. run dflt (snd (moveUp i c)) s = Some s' \<and>
            (\<forall>x\<in>set (rows s'). id_f x = i \<longrightarrow> priority x = priority f - 1.5) \<and>
            (\<forall>g\<in>set (rows s). id_f g \<noteq> i \<longrightarrow>
               g \<in> set (rows s') \<and>
               (\<forall>x\<in>set (rows s'). id_f x = i \<longrightarrow>
                  (priority x < priority g) = (priority f - priority g < 1.5) \<and>
                  (priority f - priority g < 1.5 \<longrightarrow>
                     listed_before x g (features (loadData s' c'))) \<and>
                  (1.5 < priority f - priority g \<longrightarrow>
                     listed_before g x (features (loadData s' c')))))"
    by (intro exI [of _ ?s'] conjI)
next
  assume n: "name_p (parseSpec (specInput c)) \<noteq> ''''"
  show "\<exists>d rest. snd (addFeature False reply c) =
         Insert (name_p (parseSpec (specInput c))) d (category_p (parseSpec (specInput c)))
           (if pendingPriorities c = [] then Num 100
            else Num (round53 (Max (set (pendingPriorities c)) + 1)))
           ''pending'' (instructions_p (parseSpec (specInput c))) reply # rest"
  proof (cases "pendingPriorities c = []")
    case True
    with n show ?thesis
      by (cases reply) (simp_all add: addFeature_def Let_def pendingPriorities_def)
  next
    case False
    then have "Math_max (pendingPriorities c) = Num (Max (set (pendingPriorities c)))"
      by (rule Math_max_Max)
    with n False show ?thesis
      by (cases reply) (simp_all add: addFeature_def Let_def pendingPriorities_def)
  qed
next
  assume "exact_priority (Max (set (pendingPriorities c)))"
  then show "round53 (Max (set (pendingPriorities c)) + 1) = Max (set (pendingPriorities c)) + 1"
    by (rule exact_plus_1)
qed

theorem moveUp_and_append_witness:
  "moveUp ''x'' (dashboard [row ''p'' 1 ''pending'', row ''x'' 2 ''pending''] False ''NAME: Foo'') =
     (dashboard [row ''p'' 1 ''pending'', row ''x'' 2 ''pending''] False ''NAME: Foo'',
      [Update [SetPriority (Num 0.5)] ''x'', LoadData]) \<and>
   map_option summary
     (run (row ''n'' 0 '''')
        (snd (moveUp ''x'' (dashboard [row ''p'' 1 ''pending'', row ''x'' 2 ''pending''] False ''NAME: Foo'')))
        (table [row ''p'' 1 ''pending'', row ''x'' 2 ''pending''])) =
     Some [(''p'', 1, ''pending''), (''x'', 0.5, ''pending'')] \<and>
   map_option (\<lambda>s. map id_f (features (loadData s (dashboard [] False ''''))))
     (run (row ''n'' 0 '''')
        (snd (moveUp ''x'' (dashboard [row ''p'' 1 ''pending'', row ''x'' 2 ''pending''] False ''NAME: Foo'')))
        (table [row ''p'' 1 ''pending'', row ''x'' 2 ''pending''])) = Some [''x'', ''p''] \<and>
   snd (addFeature False None (dashboard [row ''p'' 1 ''pending'', row ''x'' 2 ''pending''] False ''NAME: Foo'')) =
     [Insert ''Foo'' ''Foo'' ''crm'' (Num 3) ''pending'' '''' None, LoadData] \<and>
   snd (addFeature False None (dashboard [row ''p'' 1 ''completed''] False ''NAME: Foo'')) =
     [Insert ''Foo'' ''Foo'' ''crm'' (Num 100) ''pending'' '''' None, LoadData]"
  using moveUp_and_append
    [of "''x''" "dashboard [row ''p'' 1 ''pending'', row ''x'' 2 ''pending''] False ''NAME: Foo''"
        "row ''x'' 2 ''pending''" "row ''n'' 0 ''''"
        "table [row ''p'' 1 ''pending'', row ''x'' 2 ''pending'']" "dashboard [] False ''''" None]
    moveUp_and_append
    [of "''x''" "dashboard [row ''p'' 1 ''completed''] False ''NAME: Foo''" _ _ _ _ None]
  by (simp add: addFeature_def Let_def dashboard_def table_def row_def parseSpec_def trim_def
      isWhiteSpace_def startsWith_def pendingPriorities_def summary_def loadData_def
      round53_exact exact_priority_def)

text \<open>
  The claim as stated fails for a wide gap: with the preceding pending record at
  priority 0 and the feature at 10, the gap exceeds 1.5 (and 0.5, and any smaller
  bound), one \<open>moveUp\<close> gives 8.5, and the feature still sorts after that record.
  The decrement also fails where the subtraction rounds: at priority \<open>2 ^ 55\<close> the
  value written is \<open>2 ^ 55\<close> again.
\<close>

theorem moveUp_wide_gap_counterexample:
  "map_option summary
     (run (row ''n'' 0 '''')
        (snd (moveUp ''x'' (dashboard [row ''p'' 0 ''pending'', row ''x'' 10 ''pending''] False '''')))
        (table [row ''p'' 0 ''pending'', row ''x'' 10 ''pending''])) =
     Some [(''p'', 0, ''pending''), (''x'', 8.5, ''pending'')] \<and>
   1.5 < priority (row ''x'' 10 ''pending'') - priority (row ''p'' 0 ''pending'') \<and>
   map_option (\<lambda>s. map id_f (features (loadData s (dashboard [] False ''''))))
     (run (row ''n'' 0 '''')
        (snd (moveUp ''x'' (dashboard [row ''p'' 0 ''pending'', row ''x'' 10 ''pending''] False '''')))
        (table [row ''p'' 0 ''pending'', row ''x'' 10 ''pending''])) = Some [''p'', ''x''] \<and>
   snd (moveUp ''x'' (dashboard [row ''x'' (2 ^ 55) ''pending''] False '''')) =
     [Update [SetPriority (Num (2 ^ 55))] ''x'', LoadData]"
proof -
  have r: "round53 (17 / 2) = 17 / 2" by (simp add: round53_exact)
  have b: "round53 (72057594037927933 / 2) = 36028797018963968"
    using round53_big by simp
  show ?thesis
    by (simp add: moveUp_def loadData_def dashboard_def table_def row_def summary_def r b)
qed

section \<open>Retry\<close>

text \<open>
  \<open>retryFeature\<close> of the dashboard with the action sheet (and of
  \<open>src/app/page.tsx\<close>, which issues the same update): every row with the id ends
  \<open>pending\<close>, with no error message and a retry count of 0, whatever it held before.
\<close>

lemma retryFeature_resets:
  "\<exists>s'. run dflt (snd (retryFeature i c)) s = Some s' \<and>
     map id_f (rows s') = map id_f (rows s) \<and>
     (\<forall>f\<in>set (rows s'). id_f f = i \<longrightarrow>
        status f = ''pending'' \<and> error_message f = None \<and> retry_count f = 0)"
proof -
  let ?p = "[SetStatus ''pending'', SetRetryCount 0, SetErrorMessage None]"
  let ?s' = "s\<lparr>rows := map (\<lambda>f. if id_f f = i then apply_patch ?p f else f) (rows s)\<rparr>"
  have c: "snd (retryFeature i c) = [Update ?p i, LoadData]"
    by (simp add: retryFeature_def)
  have r: "run dflt (snd (retryFeature i c)) s = Some ?s'"
    unfolding c by (rule run_update) simp
  have ids: "map id_f (rows ?s') = map id_f (rows s)"
    by (simp add: comp_def)
  have "\<forall>f\<in>set (rows ?s'). id_f f = i \<longrightarrow>
        status f = ''pending'' \<and> error_message f = None \<and> retry_count f = 0"
  proof (intro ballI impI)
    fix f assume f: "f \<in> set (rows ?s')" and fi: "id_f f = i"
    from f have "f \<in> (\<lambda>f. if id_f f = i then apply_patch ?p f else f) ` set (rows s)"
      by simp
    then obtain f0 where fe: "f = (if id_f f0 = i then apply_patch ?p f0 else f0)"
      by (rule imageE)
    show "status f = ''pending'' \<and> error_message f = None \<and> retry_count f = 0"
    proof (cases "id_f f0 = i")
      case True
      with fe show ?thesis by simp
    next
      case False
      with fe fi show ?thesis by simp
    qed
  qed
  with r ids show ?thesis by blast
qed

text \<open>
  Claim C3 says that retry always yields status \<open>pending\<close>, no error message and a
  retry count of 0. The \<open>retryFeature\<close> of the earlier dashboard does not clear the
  error message: on a failed row with the message \<open>boom\<close> and three retries it
  leaves \<open>boom\<close> in place, where the later \<open>retryFeature\<close> clears it.
\<close>

theorem retryFeature_v1_keeps_error_message:
  "map_option (map (\<lambda>f. (status f, error_message f, retry_count f)) \<circ> rows)
     (run (row ''n'' 0 '''') (retryFeature_v1 ''a'')
        (table [row ''a'' 1 ''failed'' \<lparr>error_message := Some ''boom'', retry_count := 3\<rparr>])) =
     Some [(''pending'', Some ''boom'', 0)] \<and>
   map_option (map (\<lambda>f. (status f, error_message f, retry_count f)) \<circ> rows)
     (run (row ''n'' 0 '''') (snd (retryFeature ''a'' (dashboard [] False '''')))
        (table [row ''a'' 1 ''failed'' \<lparr>error_message := Some ''boom'', retry_count := 3\<rparr>])) =
     Some [(''pending'', None, 0)]"
  by (simp add: retryFeature_v1_def retryFeature_def table_def row_def)

section \<open>Progress\<close>

text \<open>With at least one feature both percentages are finite numbers.\<close>

lemma progress_defined:
  "0 < total c \<Longrightarrow>
   progressWidth c = Num (round53 (round53 (real (completed c) / real (total c)) * 100)) \<and>
   progressLabel c =
     Num (of_int \<lfloor>round53 (round53 (real (completed c) / real (total c)) * 100) + 1 / 2\<rfloor>)"
  by (simp add: progressWidth_def progressLabel_def js_div_def js_or_def)

text \<open>
  The quotient and the product round: for 23 completed features of 40 the product is
  just below 57.5 and the label shows 57.
\<close>

lemma round53_23_of_40: "round53 (23 / 40) = 5179139571476070 / 2 ^ 53"
proof -
  have "round53 (23 / 40) = round_at (- 1) (23 / 40)"
    by (rule round53_at) (simp_all add: powr_minus)
  also have "\<dots> = 5179139571476070 / 2 ^ 53"
    by (simp add: round_at_def rne_def Let_def powr_minus)
  finally show ?thesis .
qed

lemma round53_percent_23_of_40: "round53 (5179139571476070 / 2 ^ 53 * 100) = 8092405580431359 / 2 ^ 47"
proof -
  have "round53 (5179139571476070 / 2 ^ 53 * 100) = round_at 5 (5179139571476070 / 2 ^ 53 * 100)"
    by (rule round53_at) (simp_all add: powr_numeral)
  also have "\<dots> = 8092405580431359 / 2 ^ 47"
    by (simp add: round_at_def rne_def Let_def powr_minus)
  finally show ?thesis .
qed

lemma label_23_of_40:
  "js_or (Math_round (js_times (js_div 23 40) 100)) (Num 0) = Num 57"
proof -
  have "js_times (js_div 23 40) 100 = Num (8092405580431359 / 2 ^ 47)"
    using round53_percent_23_of_40 by (simp add: js_div_def round53_23_of_40)
  then show ?thesis
    by (simp add: js_or_def)
qed

text \<open>
  Claim C5 says that the progress fraction is 0 for an empty queue and that no
  \<open>NaN\<close> is produced. On the empty queue the division \<open>completed/total\<close> is
  \<open>0/0 = NaN\<close>; the label replaces it by 0 (\<open>|| 0\<close>), the width of the bar does not.
\<close>

theorem progress_of_empty_queue:
  "js_div (completed (dashboard [] False '''')) (total (dashboard [] False '''')) = NaN \<and>
   progressWidth (dashboard [] False '''') = NaN \<and>
   progressLabel (dashboard [] False '''') = Num 0"
  by (simp add: progressWidth_def progressLabel_def js_div_def js_or_def completed_def total_def
      dashboard_def)

section \<open>Start now\<close>

text \<open>
  Claim C6 says that a feature inserted with \<open>startNow\<close> gets a priority not above
  any existing one and so sorts first. \<open>addFeature\<close> inserts the constant 0. From an
  empty store: feature \<open>a\<close> is added with \<open>startNow\<close> (priority 0) and moved to the
  top (priority -1); feature \<open>b\<close> is then added with \<open>startNow\<close> and gets priority 0,
  above \<open>a\<close>: the next snapshot lists \<open>a\<close> before \<open>b\<close>.
\<close>

theorem startNow_after_moveToTop:
  "map_option summary
     (Option.bind
        (Option.bind
           (run (row ''a'' 0 '''') (snd (addFeature True None (dashboard [] True ''NAME: A''))) (table []))
           (\<lambda>s1. run (row ''n'' 0 '''') (snd (moveToTop ''a'' (loadData s1 (dashboard [] True '''')))) s1))
        (\<lambda>s2. run (row ''b'' 0 '''')
                (snd (addFeature True None (loadData s2 (dashboard [] True ''NAME: B'')))) s2)) =
     Some [(''a'', - 1, ''pending''), (''b'', 0, ''pending'')] \<and>
   map_option (\<lambda>s3. map id_f (features (loadData s3 (dashboard [] True ''''))))
     (Option.bind
        (Option.bind
           (run (row ''a'' 0 '''') (snd (addFeature True None (dashboard [] True ''NAME: A''))) (table []))
           (\<lambda>s1. run (row ''n'' 0 '''') (snd (moveToTop ''a'' (loadData s1 (dashboard [] True '''')))) s1))
        (\<lambda>s2. run (row ''b'' 0 '''')
                (snd (addFeature True None (loadData s2 (dashboard [] True ''NAME: B'')))) s2)) =
     Some [''a'', ''b'']"
  by (simp add: addFeature_def Let_def loadData_def dashboard_def table_def row_def parseSpec_def
      trim_def isWhiteSpace_def startsWith_def moveToTop_def summary_def round53_exact)

end
